theory Spec2Isabelle
  imports Main
begin

section \<open>JavaScript values\<close>

text \<open>
  The handlers of \<^verbatim>\<open>server.js\<close> read request bodies and gateway replies that
  \<^verbatim>\<open>express.json()\<close> and axios parsed from JSON, so every field may hold any JSON
  value, and a missing property reads as \<^verbatim>\<open>undefined\<close>. \<open>JNaN\<close> is the result of
  \<^verbatim>\<open>parseInt\<close> on text without digits, \<open>JInf\<close> an infinity (\<open>True\<close> the negative one).
  \<open>JNum n\<close> is the double whose value is the integer \<open>n\<close>; 0 stands for both zeros, which
  nothing in the handlers tells apart. Numbers with a fraction are not modelled. A string
  is a list of code units below 256. An object is the list of its properties, the first
  entry of a name being the property.
\<close>

datatype jsval =
    JUndefined
  | JNull
  | JBool bool
  | JNum int
  | JNaN
  | JInf bool
  | JStr string
  | JArr "jsval list"
  | JObj "(string \<times> jsval) list"

text \<open>What a \<^verbatim>\<open>throw\<close> carries: a \<^verbatim>\<open>TypeError\<close> of the runtime, or the error axios
  rejects with (a failed or timed-out call), with its \<^verbatim>\<open>error.response?.data || error.message\<close>.\<close>

datatype error = TypeError | AxiosError jsval

text \<open>\<^verbatim>\<open>!v\<close> is \<open>\<not> truthy v\<close>.\<close>

fun truthy :: "jsval \<Rightarrow> bool" where
  "truthy JUndefined = False"
| "truthy JNull = False"
| "truthy (JBool b) = b"
| "truthy (JNum n) = (n \<noteq> 0)"
| "truthy JNaN = False"
| "truthy (JInf neg) = True"
| "truthy (JStr s) = (s \<noteq> [])"
| "truthy (JArr xs) = True"
| "truthy (JObj kvs) = True"

fun nullish :: "jsval \<Rightarrow> bool" where
  "nullish JUndefined = True"
| "nullish JNull = True"
| "nullish v = False"

text \<open>\<^verbatim>\<open>a === b\<close>. Two parsed objects or arrays are different objects; \<^verbatim>\<open>NaN\<close> equals
  nothing.\<close>

fun strict_eq :: "jsval \<Rightarrow> jsval \<Rightarrow> bool" where
  "strict_eq JUndefined JUndefined = True"
| "strict_eq JNull JNull = True"
| "strict_eq (JBool a) (JBool b) = (a = b)"
| "strict_eq (JNum a) (JNum b) = (a = b)"
| "strict_eq (JInf a) (JInf b) = (a = b)"
| "strict_eq (JStr a) (JStr b) = (a = b)"
| "strict_eq a b = False"

text \<open>\<^verbatim>\<open>v.name\<close> on a value that is neither \<^verbatim>\<open>null\<close> nor \<^verbatim>\<open>undefined\<close>, for the
  property names the handlers read (none of them is a property of a string, a number, a
  boolean or an array). \<open>js_get\<close> is the access itself, which throws on \<^verbatim>\<open>null\<close> and
  \<^verbatim>\<open>undefined\<close>.\<close>

fun js_prop :: "jsval \<Rightarrow> string \<Rightarrow> jsval" where
  "js_prop (JObj kvs) name = (case map_of kvs name of None \<Rightarrow> JUndefined | Some v \<Rightarrow> v)"
| "js_prop v name = JUndefined"

definition js_get :: "jsval \<Rightarrow> string \<Rightarrow> error + jsval" where
  "js_get v name = (if nullish v then Inl TypeError else Inr (js_prop v name))"

section \<open>Strings\<close>

text \<open>The white space and line terminators that \<^verbatim>\<open>trim\<close> and \<^verbatim>\<open>parseInt\<close> skip, among
  the code units below 256: tab, line feed, vertical tab, form feed, carriage return,
  space, no-break space.\<close>

definition is_space :: "char \<Rightarrow> bool" where
  "is_space c = ((of_char c :: nat) \<in> {9, 10, 11, 12, 13, 32, 160})"

definition trim :: "string \<Rightarrow> string" where
  "trim s = rev (dropWhile is_space (rev (dropWhile is_space s)))"

definition startsWith :: "string \<Rightarrow> string \<Rightarrow> bool" where
  "startsWith s p = (take (length p) s = p)"

section \<open>Phone number formatting\<close>

text \<open>Lines 100 to 107 of \<^verbatim>\<open>server.js\<close>, on a phone that is a string.\<close>

definition formattedPhone :: "string \<Rightarrow> string" where
  "formattedPhone phone =
     (let f = trim phone in
      if startsWith f ''0'' then ''254'' @ drop 1 f
      else if startsWith f ''+254'' then drop 1 f
      else if \<not> startsWith f ''254'' then ''254'' @ f
      else f)"

section \<open>Numbers and \<^verbatim>\<open>parseInt\<close>\<close>

text \<open>The double nearest to a natural number, ties to the even significand of 53 bits;
  \<open>None\<close> when it is beyond the largest double, which rounds to infinity.\<close>

function bitlen :: "int \<Rightarrow> nat" where
  "bitlen n = (if n \<le> 0 then 0 else Suc (bitlen (n div 2)))"
  by pat_completeness auto
termination
  by (relation "measure nat") auto

declare bitlen.simps [simp del]

definition round_up :: "int \<Rightarrow> int \<Rightarrow> int \<Rightarrow> int" where
  "round_up q r h = (if h < r \<or> (r = h \<and> odd q) then q + 1 else q)"

definition finite_double :: "int \<Rightarrow> int option" where
  "finite_double v = (if 1024 < bitlen v then None else Some v)"

definition round_at :: "int \<Rightarrow> nat \<Rightarrow> int option" where
  "round_at n e = finite_double (round_up (n div 2 ^ e) (n mod 2 ^ e) (2 ^ (e - 1)) * 2 ^ e)"

definition round_double :: "int \<Rightarrow> int option" where
  "round_double n = (if bitlen n \<le> 53 then Some n else round_at n (bitlen n - 53))"

text \<open>\<^verbatim>\<open>String(v)\<close> for a double \<open>v \<ge> 0\<close> with an integer value (Number::toString): the
  fewest digits \<open>s\<close> such that \<open>s\<close> times a power of ten rounds to \<open>v\<close>, the nearer to \<open>v\<close> of
  two such, then zeros up to the length \<open>k\<close> of \<open>v\<close> when \<open>k \<le> 21\<close>, and the exponent form
  beyond. \<open>pick_digits v a b lo\<close> chooses between the multiples \<open>a \<le> v < b\<close> of one power of
  ten.\<close>

function show_nat :: "int \<Rightarrow> string" where
  "show_nat n =
     (if n < 10 then [char_of (48 + n)] else show_nat (n div 10) @ [char_of (48 + n mod 10)])"
  by pat_completeness auto
termination
  by (relation "measure nat") auto

declare show_nat.simps [simp del]

function declen :: "int \<Rightarrow> nat" where
  "declen n = (if n < 10 then 1 else Suc (declen (n div 10)))"
  by pat_completeness auto
termination
  by (relation "measure nat") auto

declare declen.simps [simp del]

definition pick_digits :: "int \<Rightarrow> int \<Rightarrow> int \<Rightarrow> int \<Rightarrow> int option" where
  "pick_digits v a b lo =
     (if round_double a = Some v
      then (if round_double b = Some v
            then Some (if v - a < b - v then lo
                       else if b - v < v - a then lo + 1
                       else if even lo then lo else lo + 1)
            else Some lo)
      else if round_double b = Some v then Some (lo + 1)
      else None)"

definition candidate_at :: "int \<Rightarrow> int \<Rightarrow> int \<Rightarrow> int option" where
  "candidate_at v p lo = pick_digits v (lo * p) ((lo + 1) * p) lo"

definition candidate :: "int \<Rightarrow> int \<Rightarrow> int option" where
  "candidate v p = candidate_at v p (v div p)"

text \<open>The search for the fewest digits, from \<open>n\<close> digits on: the result is the digits, their
  number, and the number of digits before the decimal point. Digits \<open>10 ^ n\<close> are the digit
  1 one place higher.\<close>

fun shortest_from :: "int \<Rightarrow> nat \<Rightarrow> nat \<Rightarrow> nat \<Rightarrow> int \<times> nat \<times> nat" where
  "shortest_from v k n 0 = (v, k, k)"
| "shortest_from v k n (Suc fuel) =
     (case candidate v (10 ^ (k - n)) of
        Some s \<Rightarrow> if s = 10 ^ n then (1, 1, Suc k) else (s, n, k)
      | None \<Rightarrow> shortest_from v k (Suc n) fuel)"

definition shortest :: "int \<Rightarrow> nat \<Rightarrow> int \<times> nat \<times> nat" where
  "shortest v k = shortest_from v k 1 k"

definition layout :: "string \<Rightarrow> nat \<Rightarrow> nat \<Rightarrow> string" where
  "layout ds n k =
     (if k \<le> 21 then ds @ replicate (k - n) CHR ''0''
      else (if n = 1 then ds else take 1 ds @ ''.'' @ drop 1 ds) @ ''e+'' @ show_nat (int k - 1))"

definition number_toString :: "int \<Rightarrow> string" where
  "number_toString v = (case shortest v (declen v) of (s, n, k) \<Rightarrow> layout (show_nat s) n k)"

text \<open>\<^verbatim>\<open>String(v)\<close>, which \<^verbatim>\<open>parseInt\<close> and a template literal apply to a value. A parsed
  object prints as \<^verbatim>\<open>[object Object]\<close> unless it has a property \<^verbatim>\<open>toString\<close> of its own,
  which JSON cannot make callable: then the conversion throws (\<open>None\<close>). An array joins its
  elements with commas, \<^verbatim>\<open>null\<close> and \<^verbatim>\<open>undefined\<close> printing as nothing.\<close>

fun join_comma :: "string list \<Rightarrow> string" where
  "join_comma [] = []"
| "join_comma [s] = s"
| "join_comma (s # t # ss) = s @ CHR '','' # join_comma (t # ss)"

fun js_toString :: "jsval \<Rightarrow> string option" where
  "js_toString JUndefined = Some ''undefined''"
| "js_toString JNull = Some ''null''"
| "js_toString (JBool b) = Some (if b then ''true'' else ''false'')"
| "js_toString (JNum n) =
     Some (if n < 0 then CHR ''-'' # number_toString (- n) else number_toString n)"
| "js_toString JNaN = Some ''NaN''"
| "js_toString (JInf neg) = Some (if neg then ''-Infinity'' else ''Infinity'')"
| "js_toString (JStr s) = Some s"
| "js_toString (JObj kvs) =
     (if map_of kvs ''toString'' = None then Some ''[object Object]'' else None)"
| "js_toString (JArr xs) =
     (let parts = map (\<lambda>x. if nullish x then Some [] else js_toString x) xs
      in if None \<in> set parts then None else Some (join_comma (map the parts)))"

definition digit_val :: "int \<Rightarrow> char \<Rightarrow> int option" where
  "digit_val radix c =
     (let n = (of_char c :: int);
          d = (if 48 \<le> n \<and> n \<le> 57 then Some (n - 48)
               else if 97 \<le> n \<and> n \<le> 102 then Some (n - 87)
               else if 65 \<le> n \<and> n \<le> 70 then Some (n - 55)
               else None)
      in case d of None \<Rightarrow> None | Some v \<Rightarrow> if v < radix then Some v else None)"

text \<open>The number value of a sign and a magnitude: the nearest double, or an infinity.\<close>

definition js_number :: "bool \<Rightarrow> int \<Rightarrow> jsval" where
  "js_number neg m =
     (case round_double m of
        None \<Rightarrow> JInf neg
      | Some v \<Rightarrow> JNum (if neg then - v else v))"

text \<open>\<^verbatim>\<open>parseInt(s)\<close> with no radix: leading white space, a sign, a \<^verbatim>\<open>0x\<close> prefix for
  radix 16, then the longest run of digits, read exactly and rounded to a double (as Node
  does, whatever the number of digits); \<^verbatim>\<open>NaN\<close> when there is no digit.\<close>

definition parseInt_string :: "string \<Rightarrow> jsval" where
  "parseInt_string s =
     (let s1 = dropWhile is_space s;
          neg = startsWith s1 ''-'';
          s2 = (if startsWith s1 ''-'' \<or> startsWith s1 ''+'' then drop 1 s1 else s1);
          hex = (startsWith s2 ''0x'' \<or> startsWith s2 ''0X'');
          radix = (if hex then 16 else 10);
          s3 = (if hex then drop 2 s2 else s2);
          z = takeWhile (\<lambda>c. digit_val radix c \<noteq> None) s3
      in if z = [] then JNaN
         else js_number neg (foldl (\<lambda>a c. a * radix + the (digit_val radix c)) 0 z))"

definition parseInt :: "jsval \<Rightarrow> error + jsval" where
  "parseInt v = (case js_toString v of None \<Rightarrow> Inl TypeError | Some s \<Rightarrow> Inr (parseInt_string s))"

section \<open>The transaction store\<close>

datatype status = Pending | Completed | Failed

text \<open>The object stored per transaction. A property the code has not assigned is \<open>None\<close>.
  Dates are milliseconds of the clock.\<close>

record txn =
  phone :: string
  amount :: jsval
  accountRef :: string
  status :: status
  createdAt :: nat
  customerMessage :: jsval
  completedAt :: "nat option"
  actualAmount :: "jsval option"
  receiptNumber :: "jsval option"
  transactionDate :: "jsval option"
  payerPhone :: "jsval option"
  errorMessage :: "jsval option"

text \<open>\<^verbatim>\<open>const transactions = new Map()\<close>: the entries in insertion order. A \<^verbatim>\<open>Map\<close>
  compares keys by SameValueZero: primitives by value (\<^verbatim>\<open>NaN\<close> equal to itself), objects by
  identity, so the object or array of one parsed message is never the key of another.\<close>

type_synonym store = "(jsval \<times> txn) list"

fun same_key :: "jsval \<Rightarrow> jsval \<Rightarrow> bool" where
  "same_key JUndefined JUndefined = True"
| "same_key JNull JNull = True"
| "same_key (JBool a) (JBool b) = (a = b)"
| "same_key (JNum a) (JNum b) = (a = b)"
| "same_key JNaN JNaN = True"
| "same_key (JInf a) (JInf b) = (a = b)"
| "same_key (JStr a) (JStr b) = (a = b)"
| "same_key a b = False"

fun store_get :: "store \<Rightarrow> jsval \<Rightarrow> txn option" where
  "store_get [] k = None"
| "store_get ((k', v) # s) k = (if same_key k' k then Some v else store_get s k)"

fun store_has :: "store \<Rightarrow> jsval \<Rightarrow> bool" where
  "store_has [] k = False"
| "store_has ((k', v) # s) k = (same_key k' k \<or> store_has s k)"

fun store_set :: "store \<Rightarrow> jsval \<Rightarrow> txn \<Rightarrow> store" where
  "store_set [] k v = [(k, v)]"
| "store_set ((k', v') # s) k v =
     (if same_key k' k then (k', v) # s else (k', v') # store_set s k v)"

section \<open>The callback endpoint\<close>

text \<open>The body of the \<^verbatim>\<open>forEach\<close> callback of lines 184 to 189. Reading \<^verbatim>\<open>item.Name\<close>
  throws when the item is \<^verbatim>\<open>null\<close>.\<close>

definition apply_item :: "jsval \<Rightarrow> txn \<Rightarrow> error + txn" where
  "apply_item item t =
     (if nullish item then Inl TypeError
      else
        let name = js_prop item ''Name'';
            v = js_prop item ''Value'';
            t1 = (if strict_eq name (JStr ''Amount'') then t\<lparr>actualAmount := Some v\<rparr> else t);
            t2 = (if strict_eq name (JStr ''MpesaReceiptNumber'')
                  then t1\<lparr>receiptNumber := Some v\<rparr> else t1);
            t3 = (if strict_eq name (JStr ''TransactionDate'')
                  then t2\<lparr>transactionDate := Some v\<rparr> else t2);
            t4 = (if strict_eq name (JStr ''PhoneNumber'') then t3\<lparr>payerPhone := Some v\<rparr> else t3)
        in Inr t4)"

text \<open>\<^verbatim>\<open>Item.forEach(...)\<close> on an array. The transaction object is mutated in place, so
  when an item throws, the assignments made so far stay: the result is the error and the
  transaction as it then is.\<close>

fun forEach_items :: "jsval list \<Rightarrow> txn \<Rightarrow> error option \<times> txn" where
  "forEach_items [] t = (None, t)"
| "forEach_items (item # items) t =
     (case apply_item item t of
        Inl e \<Rightarrow> (Some e, t)
      | Inr t' \<Rightarrow> forEach_items items t')"

text \<open>The reply to the gateway: HTTP status, \<^verbatim>\<open>ResultCode\<close>, \<^verbatim>\<open>ResultDesc\<close>.\<close>

datatype callback_response = Response nat int string

text \<open>\<^verbatim>\<open>app.post('/api/mpesa/callback')\<close>, lines 166 to 212. \<open>now\<close> is what \<^verbatim>\<open>new Date()\<close>
  reads. \<^verbatim>\<open>transactions.has\<close> and \<^verbatim>\<open>transactions.get\<close> are one lookup here. An exception
  goes to the \<^verbatim>\<open>catch\<close>, which answers 500; the store keeps what was assigned before.\<close>

definition mpesa_callback :: "nat \<Rightarrow> jsval \<Rightarrow> store \<Rightarrow> callback_response \<times> store" where
  "mpesa_callback now callbackData transactions =
     (if nullish callbackData then (Response 500 1 ''Failed'', transactions)
      else if truthy (js_prop callbackData ''Body'') \<and>
              truthy (js_prop (js_prop callbackData ''Body'') ''stkCallback'') then
        let stkCallback = js_prop (js_prop callbackData ''Body'') ''stkCallback'';
            checkoutRequestId = js_prop stkCallback ''CheckoutRequestID'';
            resultCode = js_prop stkCallback ''ResultCode''
        in case store_get transactions checkoutRequestId of
             None \<Rightarrow> (Response 200 0 ''Success'', transactions)
           | Some transaction \<Rightarrow>
               if strict_eq resultCode (JNum 0) then
                 let t1 = transaction\<lparr>status := Completed, completedAt := Some now\<rparr>;
                     metadata = js_prop stkCallback ''CallbackMetadata''
                 in if truthy metadata \<and> truthy (js_prop metadata ''Item'') then
                      (case js_prop metadata ''Item'' of
                         JArr items \<Rightarrow>
                           (case forEach_items items t1 of
                              (None, t2) \<Rightarrow>
                                (Response 200 0 ''Success'',
                                 store_set transactions checkoutRequestId t2)
                            | (Some e, t2) \<Rightarrow>
                                (Response 500 1 ''Failed'',
                                 store_set transactions checkoutRequestId t2))
                       | _ \<Rightarrow>
                           (Response 500 1 ''Failed'',
                            store_set transactions checkoutRequestId t1))
                    else (Response 200 0 ''Success'',
                          store_set transactions checkoutRequestId t1)
               else
                 (Response 200 0 ''Success'',
                  store_set transactions checkoutRequestId
                    (transaction\<lparr>status := Failed,
                       errorMessage := Some (js_prop stkCallback ''ResultDesc'')\<rparr>))
      else (Response 200 0 ''Success'', transactions))"

section \<open>The STK push endpoint\<close>

record mpesa_config =
  shortcode :: jsval
  callbackUrl :: jsval

record stk_payload =
  BusinessShortCode :: jsval
  Password :: string
  Timestamp :: string
  TransactionType :: string
  Amount :: jsval
  PartyA :: string
  PartyB :: jsval
  PhoneNumber :: string
  CallBackURL :: jsval
  AccountReference :: string
  TransactionDesc :: string

text \<open>What the handler takes from outside: the configuration, the outcome of the token
  request (axios rejects with an error, or resolves with \<^verbatim>\<open>response.data\<close>), the pair
  \<^verbatim>\<open>generatePassword()\<close> returns, the outcome of the push request for a given bearer token
  and payload, and the clock at line 144.\<close>

record environment =
  config :: mpesa_config
  token_reply :: "error + jsval"
  generated :: "string \<times> string"
  push_reply :: "jsval \<Rightarrow> stk_payload \<Rightarrow> error + jsval"
  clock :: nat

text \<open>\<^verbatim>\<open>getAccessToken\<close>, lines 52 to 73: an error is logged and thrown again; a reply
  without the field gives \<^verbatim>\<open>undefined\<close>.\<close>

definition getAccessToken :: "environment \<Rightarrow> error + jsval" where
  "getAccessToken env =
     (case token_reply env of
        Inl e \<Rightarrow> Inl e
      | Inr data \<Rightarrow> js_get data ''access_token'')"

text \<open>The outbound calls a request made, in order.\<close>

datatype call = TokenCall | PushCall jsval stk_payload

text \<open>The three replies of the endpoint: 400 with the fixed message, 200 with
  \<^verbatim>\<open>checkoutRequestId\<close> and \<^verbatim>\<open>customerMessage\<close>, 500 with the error's details.\<close>

datatype stk_response = BadRequest | Initiated jsval jsval | ServerError error

text \<open>\<^verbatim>\<open>app.post('/api/mpesa/stk-push')\<close>, lines 87 to 163. \<^verbatim>\<open>phone.trim()\<close> and
  \<^verbatim>\<open>accountRef.substring(0, 12)\<close> throw on a value that is not a string, and the template
  literal of line 131 throws when the token has no string form.\<close>

definition stk_push ::
    "environment \<Rightarrow> jsval \<Rightarrow> store \<Rightarrow> stk_response \<times> store \<times> call list" where
  "stk_push env body transactions =
     (if nullish body then (ServerError TypeError, transactions, [])
      else
        let phoneV = js_prop body ''phone'';
            amountV = js_prop body ''amount'';
            accountRefV = js_prop body ''accountRef''
        in if \<not> truthy phoneV \<or> \<not> truthy amountV \<or> \<not> truthy accountRefV
           then (BadRequest, transactions, [])
           else
             (case phoneV of
                JStr p \<Rightarrow>
                  (case getAccessToken env of
                     Inl e \<Rightarrow> (ServerError e, transactions, [TokenCall])
                   | Inr accessToken \<Rightarrow>
                       (case parseInt amountV of
                          Inl e \<Rightarrow> (ServerError e, transactions, [TokenCall])
                        | Inr amt \<Rightarrow>
                            (case accountRefV of
                               JStr r \<Rightarrow>
                                 (let stkPushPayload =
                                        \<lparr>BusinessShortCode = shortcode (config env),
                                         Password = fst (generated env),
                                         Timestamp = snd (generated env),
                                         TransactionType = ''CustomerPayBillOnline'',
                                         Amount = amt,
                                         PartyA = formattedPhone p,
                                         PartyB = shortcode (config env),
                                         PhoneNumber = formattedPhone p,
                                         CallBackURL = callbackUrl (config env),
                                         AccountReference = take 12 r,
                                         TransactionDesc = ''Payment for goods/services''\<rparr>;
                                      calls = [TokenCall, PushCall accessToken stkPushPayload]
                                  in case js_toString accessToken of
                                       None \<Rightarrow> (ServerError TypeError, transactions, [TokenCall])
                                     | Some bearer \<Rightarrow>
                                         (case push_reply env accessToken stkPushPayload of
                                            Inl e \<Rightarrow> (ServerError e, transactions, calls)
                                          | Inr data \<Rightarrow>
                                              if nullish data
                                              then (ServerError TypeError, transactions, calls)
                                              else
                                                let transactionId =
                                                      js_prop data ''CheckoutRequestID''
                                                in (Initiated transactionId
                                                      (js_prop data ''CustomerMessage''),
                                                    store_set transactions transactionId
                                                      \<lparr>phone = formattedPhone p,
                                                       amount = amt,
                                                       accountRef = r,
                                                       status = Pending,
                                                       createdAt = clock env,
                                                       customerMessage =
                                                         js_prop data ''CustomerMessage'',
                                                       completedAt = None,
                                                       actualAmount = None,
                                                       receiptNumber = None,
                                                       transactionDate = None,
                                                       payerPhone = None,
                                                       errorMessage = None\<rparr>,
                                                    calls)))
                             | _ \<Rightarrow> (ServerError TypeError, transactions, [TokenCall]))))
              | _ \<Rightarrow> (ServerError TypeError, transactions, [])))"

section \<open>Reading a notification\<close>

text \<open>The parts of a webhook body the callback handler reads, named for the statements
  below: the result container \<^verbatim>\<open>Body.stkCallback\<close>, the test of line 171, the correlation
  key, the result code, and the array \<^verbatim>\<open>CallbackMetadata.Item\<close> (no item when there is no
  metadata, \<open>None\<close> when \<^verbatim>\<open>Item\<close> is something else than an array).\<close>

definition stkCallback_of :: "jsval \<Rightarrow> jsval" where
  "stkCallback_of body = js_prop (js_prop body ''Body'') ''stkCallback''"

definition has_container :: "jsval \<Rightarrow> bool" where
  "has_container body =
     (\<not> nullish body \<and> truthy (js_prop body ''Body'') \<and> truthy (stkCallback_of body))"

definition checkoutRequestId_of :: "jsval \<Rightarrow> jsval" where
  "checkoutRequestId_of body = js_prop (stkCallback_of body) ''CheckoutRequestID''"

definition resultCode_of :: "jsval \<Rightarrow> jsval" where
  "resultCode_of body = js_prop (stkCallback_of body) ''ResultCode''"





text \<open>The same value computed the way the loop runs, item by item, up to the first item
  that throws.\<close>

fun assigned :: "string \<Rightarrow> jsval list \<Rightarrow> jsval option \<Rightarrow> jsval option" where
  "assigned name [] old = old"
| "assigned name (i # is) old =
     (if nullish i then old
      else assigned name is
             (if js_prop i ''Name'' = JStr name then Some (js_prop i ''Value'') else old))"

section \<open>What a request submits and stores\<close>

text \<open>The payload of lines 112 to 124 and the record of lines 139 to 146, for a phone \<open>p\<close>,
  a parsed amount \<open>amt\<close>, an account reference \<open>r\<close> and the gateway's message \<open>msg\<close>.\<close>

definition payload_for :: "environment \<Rightarrow> string \<Rightarrow> jsval \<Rightarrow> string \<Rightarrow> stk_payload" where
  "payload_for env p amt r =
     \<lparr>BusinessShortCode = shortcode (config env),
      Password = fst (generated env),
      Timestamp = snd (generated env),
      TransactionType = ''CustomerPayBillOnline'',
      Amount = amt,
      PartyA = formattedPhone p,
      PartyB = shortcode (config env),
      PhoneNumber = formattedPhone p,
      CallBackURL = callbackUrl (config env),
      AccountReference = take 12 r,
      TransactionDesc = ''Payment for goods/services''\<rparr>"

definition record_for :: "environment \<Rightarrow> string \<Rightarrow> jsval \<Rightarrow> string \<Rightarrow> jsval \<Rightarrow> txn" where
  "record_for env p amt r msg =
     \<lparr>phone = formattedPhone p,
      amount = amt,
      accountRef = r,
      status = Pending,
      createdAt = clock env,
      customerMessage = msg,
      completedAt = None,
      actualAmount = None,
      receiptNumber = None,
      transactionDate = None,
      payerPhone = None,
      errorMessage = None\<rparr>"

section \<open>Sample data\<close>

definition pending_txn :: txn where
  "pending_txn =
     \<lparr>phone = ''254712345678'', amount = JNum 100, accountRef = ''INV-1'', status = Pending,
      createdAt = 1000, customerMessage = JStr ''Success. Request accepted for processing'',
      completedAt = None, actualAmount = None, receiptNumber = None, transactionDate = None,
      payerPhone = None, errorMessage = None\<rparr>"

definition paid_txn :: "nat \<Rightarrow> txn" where
  "paid_txn at =
     pending_txn\<lparr>status := Completed, completedAt := Some at,
       actualAmount := Some (JNum 100), receiptNumber := Some (JStr ''NLJ7RT61SV''),
       transactionDate := Some (JNum 20191219102115),
       payerPhone := Some (JNum 254712345678)\<rparr>"

definition sample_store :: store where
  "sample_store = [(JStr ''ws_CO_1'', pending_txn)]"

definition envelope :: "jsval \<Rightarrow> jsval" where
  "envelope stk = JObj [(''Body'', JObj [(''stkCallback'', stk)])]"

definition paid_webhook :: jsval where
  "paid_webhook =
     envelope (JObj
       [(''MerchantRequestID'', JStr ''29115-34620561-1''),
        (''CheckoutRequestID'', JStr ''ws_CO_1''),
        (''ResultCode'', JNum 0),
        (''ResultDesc'', JStr ''The service request is processed successfully.''),
        (''CallbackMetadata'', JObj [(''Item'', JArr
           [JObj [(''Name'', JStr ''Amount''), (''Value'', JNum 100)],
            JObj [(''Name'', JStr ''MpesaReceiptNumber''), (''Value'', JStr ''NLJ7RT61SV'')],
            JObj [(''Name'', JStr ''TransactionDate''), (''Value'', JNum 20191219102115)],
            JObj [(''Name'', JStr ''PhoneNumber''), (''Value'', JNum 254712345678)]])])])"

definition cancelled_webhook :: "jsval \<Rightarrow> jsval" where
  "cancelled_webhook code =
     envelope (JObj
       [(''MerchantRequestID'', JStr ''29115-34620561-1''),
        (''CheckoutRequestID'', JStr ''ws_CO_1''),
        (''ResultCode'', code),
        (''ResultDesc'', JStr ''Request cancelled by user'')])"

definition broken_webhook :: jsval where
  "broken_webhook =
     envelope (JObj
       [(''CheckoutRequestID'', JStr ''ws_CO_1''),
        (''ResultCode'', JNum 0),
        (''ResultDesc'', JStr ''The service request is processed successfully.''),
        (''CallbackMetadata'', JObj [(''Item'', JArr
           [JObj [(''Name'', JStr ''Amount''), (''Value'', JNum 100)],
            JNull,
            JObj [(''Name'', JStr ''MpesaReceiptNumber''), (''Value'', JStr ''NLJ7RT61SV'')]])])])"

definition stray_webhook :: jsval where
  "stray_webhook =
     envelope (JObj
       [(''CheckoutRequestID'', JStr ''ws_CO_9''),
        (''ResultCode'', JNum 0),
        (''ResultDesc'', JStr ''The service request is processed successfully.'')])"

definition sample_request :: "jsval \<Rightarrow> string \<Rightarrow> jsval" where
  "sample_request amt ref =
     JObj [(''phone'', JStr ''0712345678''), (''amount'', amt), (''accountRef'', JStr ref)]"

definition sample_payload :: "jsval \<Rightarrow> string \<Rightarrow> stk_payload" where
  "sample_payload amt ref =
     \<lparr>BusinessShortCode = JStr ''174379'', Password = ''cGFzc3dvcmQ='',
      Timestamp = ''20240101120000'', TransactionType = ''CustomerPayBillOnline'',
      Amount = amt, PartyA = ''254712345678'', PartyB = JStr ''174379'',
      PhoneNumber = ''254712345678'',
      CallBackURL = JStr ''https://shop.example/api/mpesa/callback'',
      AccountReference = ref, TransactionDesc = ''Payment for goods/services''\<rparr>"

definition sample_env :: "(error + jsval) \<Rightarrow> (error + jsval) \<Rightarrow> environment" where
  "sample_env token pushed =
     \<lparr>config = \<lparr>shortcode = JStr ''174379'',
                callbackUrl = JStr ''https://shop.example/api/mpesa/callback''\<rparr>,
      token_reply = token,
      generated = (''cGFzc3dvcmQ='', ''20240101120000''),
      push_reply = (\<lambda>tok payload. pushed),
      clock = 7000\<rparr>"

definition token_ok :: "error + jsval" where
  "token_ok = Inr (JObj [(''access_token'', JStr ''tok-1''), (''expires_in'', JStr ''3599'')])"

definition push_ok :: "error + jsval" where
  "push_ok =
     Inr (JObj [(''MerchantRequestID'', JStr ''29115-34620561-1''),
                (''CheckoutRequestID'', JStr ''ws_CO_1''),
                (''ResponseCode'', JStr ''0''),
                (''CustomerMessage'', JStr ''Success. Request accepted for processing'')])"

definition created_txn :: "jsval \<Rightarrow> string \<Rightarrow> jsval \<Rightarrow> txn" where
  "created_txn amt ref msg =
     \<lparr>phone = ''254712345678'', amount = amt, accountRef = ref, status = Pending,
      createdAt = 7000, customerMessage = msg,
      completedAt = None, actualAmount = None, receiptNumber = None, transactionDate = None,
      payerPhone = None, errorMessage = None\<rparr>"

section \<open>Facts about the model\<close>

lemma strict_eq_str [simp]: "strict_eq v (JStr s) = (v = JStr s)"
  by (cases v) auto

lemma strict_eq_num [simp]: "strict_eq v (JNum n) = (v = JNum n)"
  by (cases v) auto

lemma store_has_get: "store_has s k = (store_get s k \<noteq> None)"
  by (induction s) auto

lemma store_get_set_same: "store_get s k = Some t \<Longrightarrow> store_get (store_set s k v) k = Some v"
  by (induction s) (auto split: if_splits)

lemma store_set_same_value: "store_get s k = Some v \<Longrightarrow> store_set s k v = s"
  by (induction s) (auto split: if_splits)

lemma store_set_length: "store_get s k = Some t \<Longrightarrow> length (store_set s k v) = length s"
  by (induction s) (auto split: if_splits)

lemma assigned_old:
  "assigned name items old = (case assigned name items None of None \<Rightarrow> old | Some v \<Rightarrow> Some v)"
proof (induction items arbitrary: old)
  case Nil
  show ?case by simp
next
  case (Cons i items)
  show ?case
  proof (cases "nullish i")
    case True
    then show ?thesis by simp
  next
    case False
    show ?thesis
      using False Cons.IH [of old] Cons.IH [of "Some (js_prop i ''Value'')"]
      by (auto split: option.splits)
  qed
qed

lemma assigned_twice: "assigned name items (assigned name items old) = assigned name items old"
proof (cases "assigned name items None")
  case None
  have "assigned name items x = x" for x
    using assigned_old [of name items x] None by simp
  then show ?thesis by simp
next
  case (Some v)
  have "assigned name items x = Some v" for x
    using assigned_old [of name items x] Some by simp
  then show ?thesis by simp
qed


lemma apply_item_fields:
  "\<not> nullish i \<Longrightarrow>
   apply_item i t = Inr
     (t\<lparr>actualAmount := if js_prop i ''Name'' = JStr ''Amount'' then Some (js_prop i ''Value'') else actualAmount t,
        receiptNumber := if js_prop i ''Name'' = JStr ''MpesaReceiptNumber'' then Some (js_prop i ''Value'') else receiptNumber t,
        transactionDate := if js_prop i ''Name'' = JStr ''TransactionDate'' then Some (js_prop i ''Value'') else transactionDate t,
        payerPhone := if js_prop i ''Name'' = JStr ''PhoneNumber'' then Some (js_prop i ''Value'') else payerPhone t\<rparr>)"
  by (simp add: apply_item_def Let_def)

lemma forEach_items_fields:
  "forEach_items items t =
     (if \<exists>i \<in> set items. nullish i then Some TypeError else None,
      t\<lparr>actualAmount := assigned ''Amount'' items (actualAmount t),
        receiptNumber := assigned ''MpesaReceiptNumber'' items (receiptNumber t),
        transactionDate := assigned ''TransactionDate'' items (transactionDate t),
        payerPhone := assigned ''PhoneNumber'' items (payerPhone t)\<rparr>)"
proof (induction items arbitrary: t)
  case Nil
  show ?case by simp
next
  case (Cons i items)
  show ?case
  proof (cases "nullish i")
    case True
    then show ?thesis by (simp add: apply_item_def)
  next
    case False
    then show ?thesis
      by (simp add: apply_item_fields Cons.IH)
  qed
qed

lemma forEach_items_again:
  assumes "forEach_items items t = (e, u)"
  shows "forEach_items items (u\<lparr>status := st, completedAt := c\<rparr>) =
           (e, u\<lparr>status := st, completedAt := c\<rparr>)"
proof -
  have u: "u = t\<lparr>actualAmount := assigned ''Amount'' items (actualAmount t),
        receiptNumber := assigned ''MpesaReceiptNumber'' items (receiptNumber t),
        transactionDate := assigned ''TransactionDate'' items (transactionDate t),
        payerPhone := assigned ''PhoneNumber'' items (payerPhone t)\<rparr>"
    and e: "e = (if \<exists>i \<in> set items. nullish i then Some TypeError else None)"
    using assms by (simp_all add: forEach_items_fields)
  show ?thesis
    by (simp add: forEach_items_fields [of items "u\<lparr>status := st, completedAt := c\<rparr>"] e)
       (simp add: u assigned_twice)
qed

lemma forEach_items_status:
  "forEach_items items t = (e, u) \<Longrightarrow> status u = status t"
  by (auto simp: forEach_items_fields)

lemma stk_push_Initiated:
  assumes "stk_push env body s = (Initiated k msg, s', calls)"
  shows "\<exists>p r amt tok data.
           \<not> nullish body \<and>
           js_prop body ''phone'' = JStr p \<and>
           js_prop body ''accountRef'' = JStr r \<and>
           parseInt (js_prop body ''amount'') = Inr amt \<and>
           getAccessToken env = Inr tok \<and>
           calls = [TokenCall, PushCall tok
              \<lparr>BusinessShortCode = shortcode (config env),
               Password = fst (generated env),
               Timestamp = snd (generated env),
               TransactionType = ''CustomerPayBillOnline'',
               Amount = amt,
               PartyA = formattedPhone p,
               PartyB = shortcode (config env),
               PhoneNumber = formattedPhone p,
               CallBackURL = callbackUrl (config env),
               AccountReference = take 12 r,
               TransactionDesc = ''Payment for goods/services''\<rparr>] \<and>
           push_reply env tok
              \<lparr>BusinessShortCode = shortcode (config env),
               Password = fst (generated env),
               Timestamp = snd (generated env),
               TransactionType = ''CustomerPayBillOnline'',
               Amount = amt,
               PartyA = formattedPhone p,
               PartyB = shortcode (config env),
               PhoneNumber = formattedPhone p,
               CallBackURL = callbackUrl (config env),
               AccountReference = take 12 r,
               TransactionDesc = ''Payment for goods/services''\<rparr> = Inr data \<and>
           \<not> nullish data \<and>
           k = js_prop data ''CheckoutRequestID'' \<and>
           msg = js_prop data ''CustomerMessage'' \<and>
           s' = store_set s k
              \<lparr>phone = formattedPhone p,
               amount = amt,
               accountRef = r,
               status = Pending,
               createdAt = clock env,
               customerMessage = msg,
               completedAt = None,
               actualAmount = None,
               receiptNumber = None,
               transactionDate = None,
               payerPhone = None,
               errorMessage = None\<rparr>"
  using assms
  unfolding stk_push_def Let_def
  by (auto split: if_splits jsval.splits sum.splits option.splits)

lemma stk_push_success:
  assumes "\<not> nullish body"
    and "js_prop body ''phone'' = JStr p" and "p \<noteq> []"
    and "truthy (js_prop body ''amount'')"
    and "parseInt (js_prop body ''amount'') = Inr amt"
    and "js_prop body ''accountRef'' = JStr r" and "r \<noteq> []"
    and "getAccessToken env = Inr tok"
    and "js_toString tok = Some bearer"
    and "push_reply env tok (payload_for env p amt r) = Inr data"
    and "\<not> nullish data"
  shows "stk_push env body s =
           (Initiated (js_prop data ''CheckoutRequestID'') (js_prop data ''CustomerMessage''),
            store_set s (js_prop data ''CheckoutRequestID'')
              (record_for env p amt r (js_prop data ''CustomerMessage'')),
            [TokenCall, PushCall tok (payload_for env p amt r)])"
  using assms
  by (simp add: stk_push_def Let_def payload_for_def record_for_def)

text \<open>A reply that lacks a field is no error to the handler: the token is then
  \<^verbatim>\<open>undefined\<close>, and a push request that resolved with data is reported as a success under
  whatever \<^verbatim>\<open>CheckoutRequestID\<close> the data has.\<close>

lemma getAccessToken_resolved:
  "token_reply env = Inr d \<Longrightarrow> \<not> nullish d \<Longrightarrow>
   getAccessToken env = Inr (js_prop d ''access_token'')"
  by (simp add: getAccessToken_def js_get_def)

lemma stk_push_resolved:
  assumes "stk_push env body s = (resp, s', calls)"
    and "PushCall tok payload \<in> set calls"
    and "push_reply env tok payload = Inr data"
    and "\<not> nullish data"
  shows "resp = Initiated (js_prop data ''CheckoutRequestID'') (js_prop data ''CustomerMessage'') \<and>
         s' = store_set s (js_prop data ''CheckoutRequestID'')
                (record_for env (case js_prop body ''phone'' of JStr p \<Rightarrow> p | _ \<Rightarrow> [])
                   (Amount payload)
                   (case js_prop body ''accountRef'' of JStr r \<Rightarrow> r | _ \<Rightarrow> [])
                   (js_prop data ''CustomerMessage''))"
  using assms
  unfolding stk_push_def Let_def record_for_def
  by (auto split: if_splits jsval.splits sum.splits option.splits)

lemmas webhook_defs =
  has_container_def stkCallback_of_def checkoutRequestId_of_def resultCode_of_def

lemmas sample_defs =
  pending_txn_def paid_txn_def sample_store_def envelope_def paid_webhook_def
  cancelled_webhook_def broken_webhook_def stray_webhook_def sample_request_def sample_payload_def sample_env_def
  token_ok_def push_ok_def created_txn_def

section \<open>Phone numbers\<close>

text \<open>
  C5 (amended). The phone is trimmed of surrounding white space first. Then a leading
  \<^verbatim>\<open>0\<close> is replaced with \<^verbatim>\<open>254\<close>; a leading \<^verbatim>\<open>+254\<close> loses its \<^verbatim>\<open>+\<close>; a value that starts
  with \<^verbatim>\<open>254\<close> is passed through; any other value, one with a leading \<^verbatim>\<open>+\<close> and another
  country code included, is prefixed with \<^verbatim>\<open>254\<close>. The four examples of the
  specification come out as it says.
\<close>

theorem formattedPhone_rules:
  "(\<forall>rest. trim s = CHR ''0'' # rest \<longrightarrow> formattedPhone s = ''254'' @ rest) \<and>
   (\<forall>rest. trim s = ''+254'' @ rest \<longrightarrow> formattedPhone s = ''254'' @ rest) \<and>
   (\<forall>rest. trim s = ''254'' @ rest \<longrightarrow> formattedPhone s = trim s) \<and>
   (\<not> startsWith (trim s) ''0'' \<and> \<not> startsWith (trim s) ''+254'' \<and>
    \<not> startsWith (trim s) ''254'' \<longrightarrow> formattedPhone s = ''254'' @ trim s) \<and>
   formattedPhone ''0712345678'' = ''254712345678'' \<and>
   formattedPhone ''+254712345678'' = ''254712345678'' \<and>
   formattedPhone ''254712345678'' = ''254712345678'' \<and>
   formattedPhone ''712345678'' = ''254712345678''"
proof -
  have zero: "formattedPhone s = ''254'' @ rest" if "trim s = CHR ''0'' # rest" for rest
    using that by (simp add: formattedPhone_def startsWith_def)
  have plus: "formattedPhone s = ''254'' @ rest" if "trim s = ''+254'' @ rest" for rest
    using that by (simp add: formattedPhone_def startsWith_def)
  have pass: "formattedPhone s = trim s" if "trim s = ''254'' @ rest" for rest
    using that by (simp add: formattedPhone_def startsWith_def)
  have other: "formattedPhone s = ''254'' @ trim s"
    if "\<not> startsWith (trim s) ''0'' \<and> \<not> startsWith (trim s) ''+254'' \<and>
        \<not> startsWith (trim s) ''254''"
    using that by (simp add: formattedPhone_def)
  have examples:
    "formattedPhone ''0712345678'' = ''254712345678''"
    "formattedPhone ''+254712345678'' = ''254712345678''"
    "formattedPhone ''254712345678'' = ''254712345678''"
    "formattedPhone ''712345678'' = ''254712345678''"
    by (simp_all add: formattedPhone_def trim_def is_space_def startsWith_def)
  show ?thesis
    using zero plus pass other examples by blast
qed

text \<open>C5, the amended rules at four inputs with white space around them, one per rule.\<close>

theorem formattedPhone_rules_witness:
  "trim '' 0712345678'' = CHR ''0'' # ''712345678'' \<and>
   formattedPhone '' 0712345678'' = ''254712345678'' \<and>
   trim ''+254712345678 '' = ''+254'' @ ''712345678'' \<and>
   formattedPhone ''+254712345678 '' = ''254712345678'' \<and>
   trim '' 254712345678 '' = ''254'' @ ''712345678'' \<and>
   formattedPhone '' 254712345678 '' = ''254712345678'' \<and>
   \<not> startsWith (trim ''712345678'') ''0'' \<and> \<not> startsWith (trim ''712345678'') ''+254'' \<and>
   \<not> startsWith (trim ''712345678'') ''254'' \<and>
   formattedPhone ''712345678'' = ''254712345678''"
  using formattedPhone_rules [of "'' 0712345678''"]
    formattedPhone_rules [of "''+254712345678 ''"]
    formattedPhone_rules [of "'' 254712345678 ''"]
    formattedPhone_rules [of "''712345678''"]
  by (simp add: trim_def is_space_def startsWith_def)

text \<open>C5 as stated fails: a leading \<^verbatim>\<open>+\<close> before another country code is not stripped,
  the value is prefixed as it is.\<close>

theorem formattedPhone_plus_counterexample:
  "formattedPhone ''+255712345678'' = ''254+255712345678'' \<and>
   formattedPhone ''+255712345678'' \<noteq> ''255712345678''"
  by (simp add: formattedPhone_def trim_def is_space_def startsWith_def)

section \<open>Reconciling a notification\<close>

text \<open>
  C8. For every webhook body (a parsed JSON document, so neither \<^verbatim>\<open>null\<close> nor
  \<^verbatim>\<open>undefined\<close>) that lacks the result container, and for every body that has it but whose
  correlation key is the key of no stored transaction, the callback handler answers
  \<^verbatim>\<open>{ResultCode: 0, ResultDesc: "Success"}\<close> and the store is what it was.
\<close>

theorem callback_ignores_unmatched:
  assumes "\<not> nullish body"
    and "\<not> has_container body \<or> \<not> store_has s (checkoutRequestId_of body)"
  shows "mpesa_callback now body s = (Response 200 0 ''Success'', s)"
  using assms
  by (auto simp: mpesa_callback_def webhook_defs store_has_get Let_def)

text \<open>C8 at an empty body and at a notification for an unknown key.\<close>

theorem callback_ignores_unmatched_witness:
  "\<not> nullish (JObj []) \<and> \<not> has_container (JObj []) \<and>
   mpesa_callback 9000 (JObj []) sample_store = (Response 200 0 ''Success'', sample_store) \<and>
   \<not> nullish stray_webhook \<and> has_container stray_webhook \<and>
   \<not> store_has sample_store (checkoutRequestId_of stray_webhook) \<and>
   mpesa_callback 9000 stray_webhook sample_store = (Response 200 0 ''Success'', sample_store)"
  using callback_ignores_unmatched [where body = "JObj []" and s = sample_store and now = 9000]
    callback_ignores_unmatched [where body = stray_webhook and s = sample_store and now = 9000]
  by (simp add: webhook_defs sample_defs)

text \<open>
  C7. When the webhook has the result container, its correlation key is the key of a
  stored transaction and its result code is not \<^verbatim>\<open>=== 0\<close>, the handler acknowledges and
  the stored record is the old one with status \<^verbatim>\<open>failed\<close> and \<^verbatim>\<open>errorMessage\<close> set to the
  webhook's \<^verbatim>\<open>ResultDesc\<close>.
\<close>

theorem callback_failed:
  assumes "has_container body"
    and "store_get s (checkoutRequestId_of body) = Some t"
    and "\<not> strict_eq (resultCode_of body) (JNum 0)"
  shows "mpesa_callback now body s =
           (Response 200 0 ''Success'',
            store_set s (checkoutRequestId_of body)
              (t\<lparr>status := Failed,
                 errorMessage := Some (js_prop (stkCallback_of body) ''ResultDesc'')\<rparr>)) \<and>
         store_get (snd (mpesa_callback now body s)) (checkoutRequestId_of body) =
           Some (t\<lparr>status := Failed,
                   errorMessage := Some (js_prop (stkCallback_of body) ''ResultDesc'')\<rparr>)"
proof -
  have run: "mpesa_callback now body s =
           (Response 200 0 ''Success'',
            store_set s (checkoutRequestId_of body)
              (t\<lparr>status := Failed,
                 errorMessage := Some (js_prop (stkCallback_of body) ''ResultDesc'')\<rparr>))"
    using assms by (simp add: mpesa_callback_def webhook_defs Let_def)
  show ?thesis
    using assms(2) by (simp add: run store_get_set_same)
qed

text \<open>C7 at a cancelled payment, result code 1032.\<close>

theorem callback_failed_witness:
  "has_container (cancelled_webhook (JNum 1032)) \<and>
   store_get sample_store (checkoutRequestId_of (cancelled_webhook (JNum 1032))) =
     Some pending_txn \<and>
   \<not> strict_eq (resultCode_of (cancelled_webhook (JNum 1032))) (JNum 0) \<and>
   mpesa_callback 9000 (cancelled_webhook (JNum 1032)) sample_store =
     (Response 200 0 ''Success'',
      [(JStr ''ws_CO_1'',
        pending_txn\<lparr>status := Failed,
          errorMessage := Some (JStr ''Request cancelled by user'')\<rparr>)])"
  using callback_failed [where body = "cancelled_webhook (JNum 1032)" and s = sample_store
      and t = pending_txn and now = 9000]
  by (simp add: webhook_defs sample_defs)

text \<open>
  C10. The result code is compared with \<^verbatim>\<open>===\<close>: for every result code other than the
  number 0, the string \<^verbatim>\<open>"0"\<close> included, a matching pending transaction becomes
  \<^verbatim>\<open>failed\<close>, not \<^verbatim>\<open>completed\<close>, with \<^verbatim>\<open>errorMessage\<close> set from \<^verbatim>\<open>ResultDesc\<close>.
\<close>

theorem callback_strict_result_code:
  assumes "has_container body"
    and "store_get s (checkoutRequestId_of body) = Some t"
    and "status t = Pending"
    and "resultCode_of body \<noteq> JNum 0"
  shows "\<exists>t'. store_get (snd (mpesa_callback now body s)) (checkoutRequestId_of body) = Some t' \<and>
              status t' = Failed \<and> status t' \<noteq> Completed \<and>
              errorMessage t' = Some (js_prop (stkCallback_of body) ''ResultDesc'')"
proof -
  have "mpesa_callback now body s =
           (Response 200 0 ''Success'',
            store_set s (checkoutRequestId_of body)
              (t\<lparr>status := Failed,
                 errorMessage := Some (js_prop (stkCallback_of body) ''ResultDesc'')\<rparr>))"
    using assms by (simp add: mpesa_callback_def webhook_defs Let_def)
  then show ?thesis
    using assms(2) by (simp add: store_get_set_same)
qed

text \<open>C10 at the result code \<^verbatim>\<open>"0"\<close>, a string.\<close>

theorem callback_strict_result_code_witness:
  "has_container (cancelled_webhook (JStr ''0'')) \<and>
   store_get sample_store (checkoutRequestId_of (cancelled_webhook (JStr ''0''))) =
     Some pending_txn \<and>
   status pending_txn = Pending \<and>
   resultCode_of (cancelled_webhook (JStr ''0'')) \<noteq> JNum 0 \<and>
   (\<exists>t'. store_get (snd (mpesa_callback 9000 (cancelled_webhook (JStr ''0'')) sample_store))
            (JStr ''ws_CO_1'') = Some t' \<and>
         status t' = Failed \<and> status t' \<noteq> Completed \<and>
         errorMessage t' = Some (JStr ''Request cancelled by user''))"
  using callback_strict_result_code [where body = "cancelled_webhook (JStr ''0'')"
      and s = sample_store and t = pending_txn and now = 9000]
  by (simp add: webhook_defs sample_defs)




text \<open>
  C1 (amended). The handler applies a webhook whatever the status of the record. When the
  same webhook body is applied a second time, the reply is the same and the status does not
  flip; with a result code other than 0 the store is left as the first call left it; with
  result code 0 the matching record is as the first call left it but for \<^verbatim>\<open>completedAt\<close>,
  which is stamped again with the time of the second call.
\<close>

theorem callback_second_delivery:
  assumes "mpesa_callback t1 body s = (a1, s1)"
  shows "mpesa_callback t2 body s1 =
           (a1,
            if has_container body \<and> resultCode_of body = JNum 0
            then (case store_get s1 (checkoutRequestId_of body) of
                    None \<Rightarrow> s1
                  | Some r \<Rightarrow> store_set s1 (checkoutRequestId_of body) (r\<lparr>completedAt := Some t2\<rparr>))
            else s1)"
proof (cases "has_container body")
  case False
  then show ?thesis
    using assms by (auto simp: mpesa_callback_def webhook_defs Let_def)
next
  case shape: True
  let ?k = "checkoutRequestId_of body"
  show ?thesis
  proof (cases "store_get s ?k")
    case None
    then have "s1 = s" "a1 = Response 200 0 ''Success''"
      using assms shape by (auto simp: mpesa_callback_def webhook_defs Let_def)
    then show ?thesis
      using None shape by (auto simp: mpesa_callback_def webhook_defs Let_def)
  next
    case (Some t)
    show ?thesis
    proof (cases "resultCode_of body = JNum 0")
      case False
      let ?f = "t\<lparr>status := Failed,
                 errorMessage := Some (js_prop (stkCallback_of body) ''ResultDesc'')\<rparr>"
      have first: "s1 = store_set s ?k ?f" "a1 = Response 200 0 ''Success''"
        using assms shape Some False by (auto simp: mpesa_callback_def webhook_defs Let_def)
      have get: "store_get s1 ?k = Some ?f"
        using Some by (simp add: first store_get_set_same)
      have "mpesa_callback t2 body s1 = (Response 200 0 ''Success'', store_set s1 ?k ?f)"
        using shape get False by (simp add: mpesa_callback_def webhook_defs Let_def)
      then show ?thesis
        using get False by (simp add: first(2) store_set_same_value)
    next
      case zero: True
      let ?c = "t\<lparr>status := Completed, completedAt := Some t1\<rparr>"
      let ?md = "js_prop (stkCallback_of body) ''CallbackMetadata''"
      show ?thesis
      proof (cases "truthy ?md \<and> truthy (js_prop ?md ''Item'')")
        case False
        have first: "s1 = store_set s ?k ?c" "a1 = Response 200 0 ''Success''"
          using assms shape Some zero False
          by (auto simp: mpesa_callback_def webhook_defs Let_def)
        have get: "store_get s1 ?k = Some ?c"
          using Some by (simp add: first store_get_set_same)
        have "mpesa_callback t2 body s1 =
            (Response 200 0 ''Success'', store_set s1 ?k (?c\<lparr>completedAt := Some t2\<rparr>))"
          using shape get zero False by (auto simp: mpesa_callback_def webhook_defs Let_def)
        then show ?thesis
          using get zero shape by (simp add: first(2))
      next
        case md: True
        show ?thesis
        proof (cases "\<exists>items. js_prop ?md ''Item'' = JArr items")
          case False
          have first: "s1 = store_set s ?k ?c" "a1 = Response 500 1 ''Failed''"
            using assms shape Some zero md False
            by (auto simp: mpesa_callback_def webhook_defs Let_def split: jsval.splits)
          have get: "store_get s1 ?k = Some ?c"
            using Some by (simp add: first store_get_set_same)
          have "mpesa_callback t2 body s1 =
              (Response 500 1 ''Failed'', store_set s1 ?k (?c\<lparr>completedAt := Some t2\<rparr>))"
            using shape get zero md False
            by (auto simp: mpesa_callback_def webhook_defs Let_def split: jsval.splits)
          then show ?thesis
            using get zero shape by (simp add: first(2))
        next
          case True
          then obtain items where items: "js_prop ?md ''Item'' = JArr items" ..
          obtain e u where loop: "forEach_items items ?c = (e, u)"
            by (cases "forEach_items items ?c")
          let ?a = "case e of None \<Rightarrow> Response 200 0 ''Success'' | Some x \<Rightarrow> Response 500 1 ''Failed''"
          have first: "s1 = store_set s ?k u" "a1 = ?a"
            using assms shape Some zero md items loop
            by (auto simp: mpesa_callback_def webhook_defs Let_def split: option.splits)
          have get: "store_get s1 ?k = Some u"
            using Some by (simp add: first store_get_set_same)
          have st: "u\<lparr>status := Completed, completedAt := Some t2\<rparr> = u\<lparr>completedAt := Some t2\<rparr>"
            using forEach_items_status [OF loop] by simp
          have again: "forEach_items items (u\<lparr>status := Completed, completedAt := Some t2\<rparr>) =
              (e, u\<lparr>completedAt := Some t2\<rparr>)"
            using forEach_items_again [OF loop, where st = Completed and c = "Some t2"] st by simp
          have "mpesa_callback t2 body s1 = (?a, store_set s1 ?k (u\<lparr>completedAt := Some t2\<rparr>))"
            using shape get zero md items again
            by (auto simp: mpesa_callback_def webhook_defs Let_def split: option.splits)
          then show ?thesis
            using get zero shape by (simp add: first(2))
        qed
      qed
    qed
  qed
qed

text \<open>C1 (amended) at a cancelled payment delivered twice: the second delivery changes
  nothing.\<close>

theorem callback_second_delivery_witness:
  "mpesa_callback 5000 (cancelled_webhook (JNum 1032)) sample_store =
     (Response 200 0 ''Success'',
      [(JStr ''ws_CO_1'',
        pending_txn\<lparr>status := Failed,
          errorMessage := Some (JStr ''Request cancelled by user'')\<rparr>)]) \<and>
   mpesa_callback 9000 (cancelled_webhook (JNum 1032))
      [(JStr ''ws_CO_1'',
        pending_txn\<lparr>status := Failed,
          errorMessage := Some (JStr ''Request cancelled by user'')\<rparr>)] =
     (Response 200 0 ''Success'',
      [(JStr ''ws_CO_1'',
        pending_txn\<lparr>status := Failed,
          errorMessage := Some (JStr ''Request cancelled by user'')\<rparr>)])"
proof -
  have first: "mpesa_callback 5000 (cancelled_webhook (JNum 1032)) sample_store =
     (Response 200 0 ''Success'',
      [(JStr ''ws_CO_1'',
        pending_txn\<lparr>status := Failed,
          errorMessage := Some (JStr ''Request cancelled by user'')\<rparr>)])"
    by (simp add: mpesa_callback_def sample_defs)
  show ?thesis
    using first callback_second_delivery [OF first, where ?t2.0 = 9000]
    by (simp add: webhook_defs sample_defs)
qed

text \<open>C1 as stated fails: a paid notification delivered at time 5000 completes the record;
  the same body delivered again at time 9000 stamps \<^verbatim>\<open>completedAt\<close> again.\<close>

theorem callback_restamps_counterexample:
  "mpesa_callback 5000 paid_webhook sample_store =
     (Response 200 0 ''Success'', [(JStr ''ws_CO_1'', paid_txn 5000)]) \<and>
   status (paid_txn 5000) = Completed \<and>
   mpesa_callback 9000 paid_webhook [(JStr ''ws_CO_1'', paid_txn 5000)] =
     (Response 200 0 ''Success'', [(JStr ''ws_CO_1'', paid_txn 9000)]) \<and>
   completedAt (paid_txn 5000) = Some 5000 \<and>
   completedAt (paid_txn 9000) = Some 9000 \<and>
   paid_txn 9000 \<noteq> paid_txn 5000"
  by (simp add: mpesa_callback_def apply_item_def sample_defs)

section \<open>Initiating a payment\<close>

text \<open>
  C2 (amended). For every request body (a parsed JSON document) in which phone, amount or
  account reference is missing or otherwise falsy (\<^verbatim>\<open>null\<close>, \<^verbatim>\<open>false\<close>, 0, the empty string),
  the handler answers 400, calls the gateway not at all and leaves the store as it was.
  Every other request passes the validation, a negative amount included.
\<close>

theorem stk_push_validation:
  assumes "\<not> nullish body"
  shows "if \<not> truthy (js_prop body ''phone'') \<or> \<not> truthy (js_prop body ''amount'') \<or>
            \<not> truthy (js_prop body ''accountRef'')
         then stk_push env body s = (BadRequest, s, [])
         else fst (stk_push env body s) \<noteq> BadRequest"
  using assms
  unfolding stk_push_def Let_def
  by (auto split: if_splits jsval.splits sum.splits option.splits)

text \<open>C2 (amended) at a request without amount.\<close>

theorem stk_push_validation_witness:
  "\<not> nullish (JObj [(''phone'', JStr ''0712345678''), (''accountRef'', JStr ''INV-1'')]) \<and>
   stk_push (sample_env token_ok push_ok)
      (JObj [(''phone'', JStr ''0712345678''), (''accountRef'', JStr ''INV-1'')]) sample_store =
     (BadRequest, sample_store, [])"
  using stk_push_validation [where env = "sample_env token_ok push_ok" and s = sample_store
      and body = "JObj [(''phone'', JStr ''0712345678''), (''accountRef'', JStr ''INV-1'')]"]
  by simp

text \<open>C2 as stated fails: a request with amount -5 is not refused; the gateway is called
  twice and a transaction with amount -5 is stored.\<close>

theorem stk_push_negative_amount_counterexample:
  "stk_push (sample_env token_ok push_ok) (sample_request (JNum (- 5)) ''INV-1'') [] =
     (Initiated (JStr ''ws_CO_1'') (JStr ''Success. Request accepted for processing''),
      [(JStr ''ws_CO_1'',
        created_txn (JNum (- 5)) ''INV-1'' (JStr ''Success. Request accepted for processing''))],
      [TokenCall, PushCall (JStr ''tok-1'') (sample_payload (JNum (- 5)) ''INV-1'')])"
  by code_simp

text \<open>
  C3 (amended). The handler stores with \<^verbatim>\<open>transactions.set\<close>, which has no duplicate check:
  when a request passes the validation, both gateway calls succeed and the correlation key
  the gateway returns is already in the store, the request succeeds and the existing record
  is replaced, in its place, by the new pending record.
\<close>

theorem stk_push_existing_key:
  assumes "\<not> nullish body"
    and "js_prop body ''phone'' = JStr p" and "p \<noteq> []"
    and "truthy (js_prop body ''amount'')"
    and "parseInt (js_prop body ''amount'') = Inr amt"
    and "js_prop body ''accountRef'' = JStr r" and "r \<noteq> []"
    and "getAccessToken env = Inr tok"
    and "js_toString tok = Some bearer"
    and "push_reply env tok (payload_for env p amt r) = Inr data"
    and "\<not> nullish data"
    and "store_has s (js_prop data ''CheckoutRequestID'')"
  shows "stk_push env body s =
           (Initiated (js_prop data ''CheckoutRequestID'') (js_prop data ''CustomerMessage''),
            store_set s (js_prop data ''CheckoutRequestID'')
              (record_for env p amt r (js_prop data ''CustomerMessage'')),
            [TokenCall, PushCall tok (payload_for env p amt r)]) \<and>
         store_get (fst (snd (stk_push env body s))) (js_prop data ''CheckoutRequestID'') =
           Some (record_for env p amt r (js_prop data ''CustomerMessage'')) \<and>
         length (fst (snd (stk_push env body s))) = length s \<and>
         status (record_for env p amt r (js_prop data ''CustomerMessage'')) = Pending"
proof -
  obtain old where old: "store_get s (js_prop data ''CheckoutRequestID'') = Some old"
    using assms(12) by (auto simp: store_has_get)
  have run: "stk_push env body s =
           (Initiated (js_prop data ''CheckoutRequestID'') (js_prop data ''CustomerMessage''),
            store_set s (js_prop data ''CheckoutRequestID'')
              (record_for env p amt r (js_prop data ''CustomerMessage'')),
            [TokenCall, PushCall tok (payload_for env p amt r)])"
    using assms(1-11) by (rule stk_push_success)
  show ?thesis
    using old by (simp add: run store_get_set_same store_set_length record_for_def)
qed

text \<open>C3 (amended) at a store that holds a pending record under the returned key.\<close>

theorem stk_push_existing_key_witness:
  "store_has sample_store (JStr ''ws_CO_1'') \<and>
   stk_push (sample_env token_ok push_ok) (sample_request (JNum 250) ''INV-2'') sample_store =
     (Initiated (JStr ''ws_CO_1'') (JStr ''Success. Request accepted for processing''),
      [(JStr ''ws_CO_1'',
        created_txn (JNum 250) ''INV-2'' (JStr ''Success. Request accepted for processing''))],
      [TokenCall, PushCall (JStr ''tok-1'') (sample_payload (JNum 250) ''INV-2'')]) \<and>
   length [(JStr ''ws_CO_1'',
        created_txn (JNum 250) ''INV-2'' (JStr ''Success. Request accepted for processing''))] =
     length sample_store"
proof -
  let ?env = "sample_env token_ok push_ok"
  let ?body = "sample_request (JNum 250) ''INV-2''"
  let ?data = "JObj [(''MerchantRequestID'', JStr ''29115-34620561-1''),
                (''CheckoutRequestID'', JStr ''ws_CO_1''),
                (''ResponseCode'', JStr ''0''),
                (''CustomerMessage'', JStr ''Success. Request accepted for processing'')]"
  have body: "\<not> nullish ?body" "js_prop ?body ''phone'' = JStr ''0712345678''"
    "''0712345678'' \<noteq> []" "truthy (js_prop ?body ''amount'')"
    "js_prop ?body ''accountRef'' = JStr ''INV-2''" "''INV-2'' \<noteq> []"
    by (simp_all add: sample_request_def)
  have amt: "parseInt (js_prop ?body ''amount'') = Inr (JNum 250)"
    by code_simp
  have tok: "getAccessToken ?env = Inr (JStr ''tok-1'')"
    by (simp add: getAccessToken_def js_get_def sample_env_def token_ok_def)
  have bearer: "js_toString (JStr ''tok-1'') = Some ''tok-1''"
    by simp
  have push: "push_reply ?env (JStr ''tok-1'')
      (payload_for ?env ''0712345678'' (JNum 250) ''INV-2'') = Inr ?data"
    by (simp add: sample_env_def push_ok_def)
  have data: "\<not> nullish ?data"
    by simp
  have has: "store_has sample_store (js_prop ?data ''CheckoutRequestID'')"
    by (simp add: sample_store_def)
  have phone: "formattedPhone ''0712345678'' = ''254712345678''"
    by (simp add: formattedPhone_def trim_def is_space_def startsWith_def)
  show ?thesis
    using has stk_push_existing_key [OF body(1-4) amt body(5,6) tok bearer push data has]
    by (simp add: payload_for_def record_for_def phone sample_env_def sample_payload_def
        created_txn_def sample_store_def)
qed

text \<open>C3 as stated fails: the store holds a completed record under \<^verbatim>\<open>ws_CO_1\<close>, the
  gateway returns that key again, and the record is overwritten with a pending one; no
  error is reported.\<close>

theorem stk_push_overwrites_counterexample:
  "store_get [(JStr ''ws_CO_1'', paid_txn 5000)] (JStr ''ws_CO_1'') = Some (paid_txn 5000) \<and>
   stk_push (sample_env token_ok push_ok) (sample_request (JNum 250) ''INV-2'')
       [(JStr ''ws_CO_1'', paid_txn 5000)] =
     (Initiated (JStr ''ws_CO_1'') (JStr ''Success. Request accepted for processing''),
      [(JStr ''ws_CO_1'',
        created_txn (JNum 250) ''INV-2'' (JStr ''Success. Request accepted for processing''))],
      [TokenCall, PushCall (JStr ''tok-1'') (sample_payload (JNum 250) ''INV-2'')]) \<and>
   created_txn (JNum 250) ''INV-2'' (JStr ''Success. Request accepted for processing'') \<noteq>
     paid_txn 5000"
  by code_simp

text \<open>
  C4 (amended). For every successful request, the stored transaction holds the formatted
  phone and the parsed amount, the values submitted to the gateway, and the account
  reference as the caller gave it; the 12-character truncation is applied to the gateway
  payload only.
\<close>

theorem stk_push_stored_fields:
  assumes "stk_push env body s = (Initiated k msg, s', calls)"
  shows "\<exists>p r amt tok payload new.
           js_prop body ''phone'' = JStr p \<and>
           js_prop body ''accountRef'' = JStr r \<and>
           parseInt (js_prop body ''amount'') = Inr amt \<and>
           calls = [TokenCall, PushCall tok payload] \<and>
           PartyA payload = formattedPhone p \<and> PhoneNumber payload = formattedPhone p \<and>
           Amount payload = amt \<and> AccountReference payload = take 12 r \<and>
           s' = store_set s k new \<and>
           phone new = formattedPhone p \<and> amount new = amt \<and> accountRef new = r"
  using stk_push_Initiated [OF assms] by fastforce

text \<open>C4 (amended) at an account reference of 19 characters.\<close>

theorem stk_push_stored_fields_witness:
  "stk_push (sample_env token_ok push_ok) (sample_request (JStr ''100'') ''INVOICE-2024-000123'')
       [] =
     (Initiated (JStr ''ws_CO_1'') (JStr ''Success. Request accepted for processing''),
      [(JStr ''ws_CO_1'',
        created_txn (JNum 100) ''INVOICE-2024-000123''
          (JStr ''Success. Request accepted for processing''))],
      [TokenCall, PushCall (JStr ''tok-1'') (sample_payload (JNum 100) ''INVOICE-2024'')])"
proof -
  have run: "stk_push (sample_env token_ok push_ok)
       (sample_request (JStr ''100'') ''INVOICE-2024-000123'') [] =
     (Initiated (JStr ''ws_CO_1'') (JStr ''Success. Request accepted for processing''),
      [(JStr ''ws_CO_1'',
        created_txn (JNum 100) ''INVOICE-2024-000123''
          (JStr ''Success. Request accepted for processing''))],
      [TokenCall, PushCall (JStr ''tok-1'') (sample_payload (JNum 100) ''INVOICE-2024'')])"
    by code_simp
  show ?thesis
    using run stk_push_stored_fields [OF run] by simp
qed

text \<open>C4 as stated fails: for the reference \<^verbatim>\<open>INVOICE-2024-000123\<close> the gateway receives
  \<^verbatim>\<open>INVOICE-2024\<close> and the store keeps all 19 characters.\<close>

theorem stk_push_raw_reference_counterexample:
  "AccountReference (sample_payload (JNum 100) ''INVOICE-2024'') = ''INVOICE-2024'' \<and>
   snd (snd (stk_push (sample_env token_ok push_ok)
       (sample_request (JNum 100) ''INVOICE-2024-000123'') [])) =
     [TokenCall, PushCall (JStr ''tok-1'') (sample_payload (JNum 100) ''INVOICE-2024'')] \<and>
   map (accountRef \<circ> snd) (fst (snd (stk_push (sample_env token_ok push_ok)
       (sample_request (JNum 100) ''INVOICE-2024-000123'') []))) = [''INVOICE-2024-000123''] \<and>
   ''INVOICE-2024-000123'' \<noteq> ''INVOICE-2024''"
  by code_simp

text \<open>
  C9 (amended). For every request in which the token acquisition or the push submission
  is reached and throws (axios rejects on an error or a timeout, or the token reply has no
  data to read the token from), the handler answers 500 with that error and the store is
  what it was. A reply that merely lacks a field is not an error to the handler.
\<close>

theorem stk_push_gateway_failure:
  assumes "stk_push env body s = (resp, s', calls)"
    and "(TokenCall \<in> set calls \<and> getAccessToken env = Inl e) \<or>
         (\<exists>tok payload. PushCall tok payload \<in> set calls \<and> push_reply env tok payload = Inl e)"
  shows "resp = ServerError e \<and> s' = s"
  using assms
  unfolding stk_push_def Let_def
  by (auto split: if_splits jsval.splits sum.splits option.splits)

text \<open>C9 (amended) at a token request that times out, and at a push request the gateway
  refuses.\<close>

theorem stk_push_gateway_failure_witness:
  "stk_push (sample_env (Inl (AxiosError (JStr ''timeout of 10000ms exceeded''))) push_ok)
       (sample_request (JNum 100) ''INV-1'') sample_store =
     (ServerError (AxiosError (JStr ''timeout of 10000ms exceeded'')), sample_store,
      [TokenCall]) \<and>
   stk_push (sample_env token_ok (Inl (AxiosError (JObj [(''errorCode'', JStr ''500.001.1001'')]))))
       (sample_request (JNum 100) ''INV-1'') sample_store =
     (ServerError (AxiosError (JObj [(''errorCode'', JStr ''500.001.1001'')])), sample_store,
      [TokenCall, PushCall (JStr ''tok-1'') (sample_payload (JNum 100) ''INV-1'')])"
proof -
  let ?e1 = "AxiosError (JStr ''timeout of 10000ms exceeded'')"
  let ?e2 = "AxiosError (JObj [(''errorCode'', JStr ''500.001.1001'')])"
  obtain r1 s1 c1 where run1: "stk_push (sample_env (Inl ?e1) push_ok)
       (sample_request (JNum 100) ''INV-1'') sample_store = (r1, s1, c1)"
    by (rule prod_cases3)
  have calls1: "c1 = [TokenCall]"
    using run1 by (simp add: stk_push_def getAccessToken_def sample_defs)
  have fail1: "getAccessToken (sample_env (Inl ?e1) push_ok) = Inl ?e1"
    by (simp add: getAccessToken_def sample_defs)
  obtain r2 s2 c2 where run2: "stk_push (sample_env token_ok (Inl ?e2))
       (sample_request (JNum 100) ''INV-1'') sample_store = (r2, s2, c2)"
    by (rule prod_cases3)
  have "snd (snd (stk_push (sample_env token_ok (Inl ?e2))
       (sample_request (JNum 100) ''INV-1'') sample_store)) =
     [TokenCall, PushCall (JStr ''tok-1'') (sample_payload (JNum 100) ''INV-1'')]"
    by code_simp
  then have calls2:
    "c2 = [TokenCall, PushCall (JStr ''tok-1'') (sample_payload (JNum 100) ''INV-1'')]"
    using run2 by simp
  have fail2: "push_reply (sample_env token_ok (Inl ?e2)) (JStr ''tok-1'')
      (sample_payload (JNum 100) ''INV-1'') = Inl ?e2"
    by (simp add: sample_defs)
  have "r1 = ServerError ?e1 \<and> s1 = sample_store"
    using stk_push_gateway_failure [OF run1, of ?e1] calls1 fail1 by simp
  moreover have "r2 = ServerError ?e2 \<and> s2 = sample_store"
    using stk_push_gateway_failure [OF run2, of ?e2] calls2 fail2 by auto
  ultimately show ?thesis
    using run1 run2 calls1 calls2 by simp
qed

text \<open>C9 as stated fails on a missing field: the token reply has no \<^verbatim>\<open>access_token\<close> and
  the push reply has no \<^verbatim>\<open>CheckoutRequestID\<close>; the handler reports success and stores a
  transaction under the key \<^verbatim>\<open>undefined\<close>.\<close>

theorem stk_push_missing_field_counterexample:
  "stk_push (sample_env (Inr (JObj [])) (Inr (JObj []))) (sample_request (JNum 100) ''INV-1'') [] =
     (Initiated JUndefined JUndefined,
      [(JUndefined, created_txn (JNum 100) ''INV-1'' JUndefined)],
      [TokenCall, PushCall JUndefined (sample_payload (JNum 100) ''INV-1'')])"
  by code_simp

end
